theory Spec2Isabelle
  imports Main
begin

section \<open>Python strings and values\<close>

text \<open>
  Python text is modelled as \<^typ>\<open>string\<close>, one \<^typ>\<open>char\<close> per code point below 256.
  The helpers of this section follow the standard-library operations the facades call:
  \<^verbatim>\<open>str.lower\<close>, \<^verbatim>\<open>str.split\<close>, \<^verbatim>\<open>str.endswith\<close>, \<^verbatim>\<open>str.join\<close>, \<^verbatim>\<open>str(int)\<close> and
  \<^verbatim>\<open>json.dumps\<close> with its default separators and ASCII escaping.
\<close>

datatype error = ValueError | FileNotFoundError

definition lower_chr :: "char \<Rightarrow> char" where
  "lower_chr c =
     (case map_of (zip ''ABCDEFGHIJKLMNOPQRSTUVWXYZ'' ''abcdefghijklmnopqrstuvwxyz'') c of
        None \<Rightarrow> c
      | Some l \<Rightarrow> l)"

definition lower :: "string \<Rightarrow> string" where
  "lower s = map lower_chr s"

fun split_str :: "char \<Rightarrow> string \<Rightarrow> string list" where
  "split_str sep [] = [[]]"
| "split_str sep (c # cs) =
     (if c = sep then [] # split_str sep cs
      else (case split_str sep cs of
              [] \<Rightarrow> [[c]]
            | w # ws \<Rightarrow> (c # w) # ws))"

definition endswith :: "string \<Rightarrow> string \<Rightarrow> bool" where
  "endswith s suf = (length suf \<le> length s \<and> drop (length s - length suf) s = suf)"

fun join :: "string \<Rightarrow> string list \<Rightarrow> string" where
  "join sep [] = []"
| "join sep [x] = x"
| "join sep (x # y # ys) = x @ sep @ join sep (y # ys)"

definition digit_chr :: "nat \<Rightarrow> char" where
  "digit_chr d = ''0123456789abcdef'' ! d"

fun str_nat :: "nat \<Rightarrow> string" where
  "str_nat n = (if n < 10 then [digit_chr n] else str_nat (n div 10) @ [digit_chr (n mod 10)])"

definition str_int :: "int \<Rightarrow> string" where
  "str_int i = (if i < 0 then CHR ''-'' # str_nat (nat (- i)) else str_nat (nat i))"

datatype pyval =
    PNone
  | PBool bool
  | PInt int
  | PStr string
  | PList "pyval list"
  | PDict "(string \<times> pyval) list"

definition json_escape_chr :: "char \<Rightarrow> string" where
  "json_escape_chr c =
     (let n = (of_char c :: nat) in
      if n = 92 then [CHR 0x5C, CHR 0x5C]
      else if n = 34 then [CHR 0x5C, CHR 0x22]
      else if n = 8 then [CHR 0x5C, CHR ''b'']
      else if n = 12 then [CHR 0x5C, CHR ''f'']
      else if n = 10 then [CHR 0x5C, CHR ''n'']
      else if n = 13 then [CHR 0x5C, CHR ''r'']
      else if n = 9 then [CHR 0x5C, CHR ''t'']
      else if 32 \<le> n \<and> n \<le> 126 then [c]
      else [CHR 0x5C, CHR ''u'', CHR ''0'', CHR ''0'', digit_chr (n div 16), digit_chr (n mod 16)])"

definition json_str :: "string \<Rightarrow> string" where
  "json_str s = [CHR 0x22] @ concat (map json_escape_chr s) @ [CHR 0x22]"

fun json_dumps :: "pyval \<Rightarrow> string" where
  "json_dumps PNone = ''null''"
| "json_dumps (PBool b) = (if b then ''true'' else ''false'')"
| "json_dumps (PInt i) = str_int i"
| "json_dumps (PStr s) = json_str s"
| "json_dumps (PList xs) = ''['' @ join '', '' (map json_dumps xs) @ '']''"
| "json_dumps (PDict kvs) =
     ''{'' @ join '', '' (map (\<lambda>kv. json_str (fst kv) @ '': '' @ json_dumps (snd kv)) kvs) @ ''}''"

section \<open>The native request and the Request facade\<close>

text \<open>
  The facade reads the wrapped framework request. Of that object the model keeps the URL
  scheme, the Host header and the parsed Accept header. The framework's own \<^verbatim>\<open>host\<close>
  property is the Host header with the port removed only when it is the scheme's
  default one (80 for http and ws, 443 for https and wss); \<open>native_host\<close> follows it.
  Membership in the Accept negotiation set is list membership, as the specification
  words it.
\<close>

record flask_request =
  scheme :: string
  host_header :: string
  accept_mimetypes :: "string list"

definition native_host :: "flask_request \<Rightarrow> string" where
  "native_host r =
     (let h = host_header r in
      if scheme r \<in> {''http'', ''ws''} \<and> endswith h '':80'' then take (length h - 3) h
      else if scheme r \<in> {''https'', ''wss''} \<and> endswith h '':443'' then take (length h - 4) h
      else h)"

definition host :: "flask_request \<Rightarrow> string" where
  "host r = native_host r"

definition hostname :: "flask_request \<Rightarrow> string" where
  "hostname r = host r"

definition subdomains :: "flask_request \<Rightarrow> string list" where
  "subdomains r = drop 2 (rev (split_str (CHR ''.'') (hostname r)))"

definition accepts :: "(string \<rightharpoonup> string) \<Rightarrow> flask_request \<Rightarrow> string \<Rightarrow> bool" where
  "accepts tm r media_type =
     (let media_type' =
            (if CHR ''/'' \<notin> set media_type
             then (case tm media_type of None \<Rightarrow> media_type | Some m \<Rightarrow> m)
             else media_type)
      in media_type' \<in> set (accept_mimetypes r))"

section \<open>The native response and the world the Response facade acts on\<close>

text \<open>
  A native response is the mutable buffer the facade wraps: status code, header list and
  body. Header names compare case-insensitively. Assigning a header first checks the
  value: one that contains a carriage return or a line feed is refused with
  \<^verbatim>\<open>ValueError\<close> and the headers stay as they are; otherwise the first entry of that name
  is replaced, later ones are removed, and the entry is appended when there is none.
  Assigning the body stores the text and records its length in bytes (UTF-8) under
  \<^verbatim>\<open>Content-Length\<close>. A newly constructed native response has status 200, an empty body
  and the single header \<^verbatim>\<open>Content-Type: text/html; charset=utf-8\<close>.

  Facade instances are objects, so they are addresses into the store \<open>responses\<close>. The
  world also holds what the methods read from their surroundings: the extension table
  \<^verbatim>\<open>mimetypes.types_map\<close> and, for each path, what reading the file as text gives.
\<close>

record flask_response =
  status_code :: int
  headers :: "(string \<times> string) list"
  data :: string

definition FlaskResponse :: flask_response where
  "FlaskResponse =
     \<lparr>status_code = 200, headers = [(''Content-Type'', ''text/html; charset=utf-8'')], data = []\<rparr>"

fun hget :: "string \<Rightarrow> (string \<times> string) list \<Rightarrow> string option" where
  "hget k [] = None"
| "hget k ((k', v') # hs) = (if lower k' = lower k then Some v' else hget k hs)"

fun hreplace :: "string \<Rightarrow> string \<Rightarrow> (string \<times> string) list \<Rightarrow> (string \<times> string) list" where
  "hreplace k v [] = [(k, v)]"
| "hreplace k v ((k', v') # hs) =
     (if lower k' = lower k then (k, v) # filter (\<lambda>kv. lower (fst kv) \<noteq> lower k) hs
      else (k', v') # hreplace k v hs)"

definition has_newline :: "string \<Rightarrow> bool" where
  "has_newline v = (CHR 0x0D \<in> set v \<or> CHR 0x0A \<in> set v)"

definition hset :: "string \<Rightarrow> string \<Rightarrow> (string \<times> string) list \<Rightarrow> error + (string \<times> string) list" where
  "hset k v hs = (if has_newline v then Inl ValueError else Inr (hreplace k v hs))"

definition utf8_length :: "string \<Rightarrow> nat" where
  "utf8_length s = length s + length (filter (\<lambda>c. 128 \<le> (of_char c :: nat)) s)"

definition set_data :: "string \<Rightarrow> flask_response \<Rightarrow> flask_response" where
  \<comment> \<open>The length is a decimal numeral, so the check of the header value cannot refuse it.\<close>
  "set_data text r =
     r\<lparr>data := text,
       headers := hreplace ''Content-Length'' (str_nat (utf8_length text)) (headers r)\<rparr>"

record world =
  responses :: "nat \<Rightarrow> flask_response"
  types_map :: "string \<rightharpoonup> string"
  read_text :: "string \<Rightarrow> error + string"

type_synonym 'a result = "(error + 'a) \<times> world"

definition upd :: "nat \<Rightarrow> (flask_response \<Rightarrow> flask_response) \<Rightarrow> world \<Rightarrow> world" where
  "upd self f w = w\<lparr>responses := (responses w)(self := f (responses w self))\<rparr>"

definition resp :: "nat \<Rightarrow> world \<Rightarrow> flask_response" where
  "resp self w = responses w self"

definition assign_header :: "string \<Rightarrow> string \<Rightarrow> nat \<Rightarrow> world \<Rightarrow> (error + unit) \<times> world" where
  \<comment> \<open>\<^verbatim>\<open>self.flask_response.headers[k] = v\<close>, and the \<^verbatim>\<open>content_type\<close> property for that name.\<close>
  "assign_header k v self w =
     (case hset k v (headers (resp self w)) of
        Inl e \<Rightarrow> (Inl e, w)
      | Inr hs \<Rightarrow> (Inr (), upd self (\<lambda>r. r\<lparr>headers := hs\<rparr>) w))"

definition assign_data :: "string \<Rightarrow> nat \<Rightarrow> world \<Rightarrow> world" where
  \<comment> \<open>\<^verbatim>\<open>self.flask_response.data = text\<close>\<close>
  "assign_data text self w = upd self (set_data text) w"

subsection \<open>Paths and status phrases\<close>

definition path_parts :: "string \<Rightarrow> string list" where
  "path_parts p = filter (\<lambda>c. c \<noteq> [] \<and> c \<noteq> ''.'') (split_str (CHR ''/'') p)"

definition path_name :: "string \<Rightarrow> string" where
  "path_name p = (case rev (path_parts p) of [] \<Rightarrow> [] | n # _ \<Rightarrow> n)"

definition path_suffix :: "string \<Rightarrow> string" where
  "path_suffix p =
     (let name = path_name p in
      if CHR ''.'' \<notin> set name then []
      else (let i = length name - 1 - length (takeWhile (\<lambda>c. c \<noteq> CHR ''.'') (rev name))
            in if 0 < i \<and> i < length name - 1 then drop i name else []))"

definition http_phrases :: "(int \<times> string) list" where
  "http_phrases =
    [(100, ''Continue''), (101, ''Switching Protocols''), (102, ''Processing''),
     (103, ''Early Hints''),
     (200, ''OK''), (201, ''Created''), (202, ''Accepted''),
     (203, ''Non-Authoritative Information''), (204, ''No Content''),
     (205, ''Reset Content''), (206, ''Partial Content''), (207, ''Multi-Status''),
     (208, ''Already Reported''), (226, ''IM Used''),
     (300, ''Multiple Choices''), (301, ''Moved Permanently''), (302, ''Found''),
     (303, ''See Other''), (304, ''Not Modified''), (305, ''Use Proxy''),
     (307, ''Temporary Redirect''), (308, ''Permanent Redirect''),
     (400, ''Bad Request''), (401, ''Unauthorized''), (402, ''Payment Required''),
     (403, ''Forbidden''), (404, ''Not Found''), (405, ''Method Not Allowed''),
     (406, ''Not Acceptable''), (407, ''Proxy Authentication Required''),
     (408, ''Request Timeout''), (409, ''Conflict''), (410, ''Gone''),
     (411, ''Length Required''), (412, ''Precondition Failed''),
     (413, ''Request Entity Too Large''), (414, ''Request-URI Too Long''),
     (415, ''Unsupported Media Type''), (416, ''Requested Range Not Satisfiable''),
     (417, ''Expectation Failed''), (418, ''I'' @ [CHR 0x27] @ ''m a Teapot''),
     (421, ''Misdirected Request''), (422, ''Unprocessable Entity''), (423, ''Locked''),
     (424, ''Failed Dependency''), (425, ''Too Early''), (426, ''Upgrade Required''),
     (428, ''Precondition Required''), (429, ''Too Many Requests''),
     (431, ''Request Header Fields Too Large''),
     (451, ''Unavailable For Legal Reasons''),
     (500, ''Internal Server Error''), (501, ''Not Implemented''), (502, ''Bad Gateway''),
     (503, ''Service Unavailable''), (504, ''Gateway Timeout''),
     (505, ''HTTP Version Not Supported''), (506, ''Variant Also Negotiates''),
     (507, ''Insufficient Storage''), (508, ''Loop Detected''), (510, ''Not Extended''),
     (511, ''Network Authentication Required'')]"

definition HTTPStatus :: "int \<Rightarrow> error + string" where
  "HTTPStatus code = (case map_of http_phrases code of None \<Rightarrow> Inl ValueError | Some p \<Rightarrow> Inr p)"

subsection \<open>The methods of Response\<close>

text \<open>
  Each method takes the instance it is called on and the world, and gives back what the
  call evaluates to (the returned instance, or the exception raised) together with the
  world after it.
\<close>

definition content_type :: "string \<Rightarrow> nat \<Rightarrow> world \<Rightarrow> nat result" where
  "content_type ct self w =
     (let ct' = (if CHR ''/'' \<notin> set ct
                 then (case types_map w (''.'' @ ct) of None \<Rightarrow> ''text/html'' | Some m \<Rightarrow> m)
                 else ct)
      in (case assign_header ''Content-Type'' ct' self w of
            (Inl e, w1) \<Rightarrow> (Inl e, w1)
          | (Inr _, w1) \<Rightarrow> (Inr self, w1)))"

definition Response_get :: "string \<Rightarrow> nat \<Rightarrow> world \<Rightarrow> string option" where
  "Response_get field self w = hget field (headers (resp self w))"

definition json :: "pyval \<Rightarrow> nat \<Rightarrow> world \<Rightarrow> nat result" where
  "json obj self w =
     (case assign_header ''Content-Type'' ''application/json'' self w of
        (Inl e, w1) \<Rightarrow> (Inl e, w1)
      | (Inr _, w1) \<Rightarrow> (Inr self, assign_data (json_dumps obj) self w1))"

definition redirect_body :: "string \<Rightarrow> string" where
  "redirect_body path =
     [CHR 0x0A] @ ''<!DOCTYPE HTML PUBLIC '' @ [CHR 0x22] @ ''-//W3C//DTD HTML 3.2 Final//EN''
       @ [CHR 0x22] @ ''>'' @ [CHR 0x0A]
     @ ''<title>Redirecting...</title>'' @ [CHR 0x0A]
     @ ''<h1>Redirecting...</h1>'' @ [CHR 0x0A]
     @ ''<p>You should be redirected automatically to target URL: <a href='' @ [CHR 0x22]
       @ path @ [CHR 0x22] @ ''>'' @ path @ ''</a>.  If not click the link.'' @ [CHR 0x0A]"

definition redirect :: "string \<Rightarrow> nat \<Rightarrow> world \<Rightarrow> nat result" where
  "redirect path self w =
     (let w1 = upd self (\<lambda>r. r\<lparr>status_code := 302\<rparr>) w;
          w2 = assign_data (redirect_body path) self w1
      in (case content_type ''text/html'' self w2 of
            (Inl e, w3) \<Rightarrow> (Inl e, w3)
          | (Inr _, w3) \<Rightarrow>
              (case assign_header ''Location'' path self w3 of
                 (Inl e, w4) \<Rightarrow> (Inl e, w4)
               | (Inr _, w4) \<Rightarrow> (Inr self, w4))))"

definition send :: "pyval \<Rightarrow> nat \<Rightarrow> world \<Rightarrow> nat result" where
  "send body self w =
     (case body of
        PStr text \<Rightarrow>
          (let w1 = assign_data text self w
           in if Response_get ''Content-Type'' self w1 = None
              then (case content_type ''text/html'' self w1 of
                      (Inl e, w2) \<Rightarrow> (Inl e, w2)
                    | (Inr _, w2) \<Rightarrow> (Inr self, w2))
              else (Inr self, w1))
      | _ \<Rightarrow> json body self w)"

definition send_file :: "string \<Rightarrow> nat \<Rightarrow> world \<Rightarrow> nat result" where
  "send_file file_path self w =
     (case read_text w file_path of
        Inl e \<Rightarrow> (Inl e, w)
      | Inr text \<Rightarrow>
          (let w1 = assign_data text self w;
               ct = (case types_map w1 (path_suffix file_path) of
                       None \<Rightarrow> ''text/html'' | Some m \<Rightarrow> m)
           in (case assign_header ''Content-Type'' ct self w1 of
                 (Inl e, w2) \<Rightarrow> (Inl e, w2)
               | (Inr _, w2) \<Rightarrow> (Inr self, w2))))"

fun set_fields :: "(string \<times> string) list \<Rightarrow> nat \<Rightarrow> world \<Rightarrow> (error + unit) \<times> world" where
  "set_fields [] self w = (Inr (), w)"
| "set_fields ((field, v) # rest) self w =
     (case assign_header field v self w of
        (Inl e, w1) \<Rightarrow> (Inl e, w1)
      | (Inr _, w1) \<Rightarrow> set_fields rest self w1)"

definition set_header :: "(string \<times> string) list \<Rightarrow> nat \<Rightarrow> world \<Rightarrow> nat result" where
  "set_header flds self w =
     (case set_fields flds self w of
        (Inl e, w1) \<Rightarrow> (Inl e, w1)
      | (Inr _, w1) \<Rightarrow> (Inr self, w1))"

definition download :: "string \<Rightarrow> string option \<Rightarrow> nat \<Rightarrow> world \<Rightarrow> nat result" where
  "download path filename self w =
     (let shown = (case filename of
                     None \<Rightarrow> path_name path
                   | Some f \<Rightarrow> if f = [] then path_name path else f)
      in (case set_header [(''Content-Disposition'', ''attachment; filename='' @ shown)] self w of
            (Inl e, w1) \<Rightarrow> (Inl e, w1)
          | (Inr _, w1) \<Rightarrow>
              (case send_file path self w1 of
                 (Inl e, w2) \<Rightarrow> (Inl e, w2)
               | (Inr _, w2) \<Rightarrow> (Inr self, w2))))"

definition status :: "int \<Rightarrow> nat \<Rightarrow> world \<Rightarrow> nat result" where
  "status code self w = (Inr self, upd self (\<lambda>r. r\<lparr>status_code := code\<rparr>) w)"

definition send_status :: "int \<Rightarrow> nat \<Rightarrow> world \<Rightarrow> nat result" where
  "send_status code self w =
     (case status code self w of
        (Inl e, w1) \<Rightarrow> (Inl e, w1)
      | (Inr target, w1) \<Rightarrow>
          (case HTTPStatus code of
             Inl e \<Rightarrow> (Inl e, w1)
           | Inr phrase \<Rightarrow>
               (case send (PStr (if phrase = [] then str_int code else phrase)) target w1 of
                  (Inl e, w2) \<Rightarrow> (Inl e, w2)
                | (Inr _, w2) \<Rightarrow> (Inr self, w2))))"

definition is_str :: "pyval \<Rightarrow> bool" where
  "is_str v = (case v of PStr _ \<Rightarrow> True | _ \<Rightarrow> False)"

definition then_call :: "nat result \<Rightarrow> (nat \<Rightarrow> world \<Rightarrow> nat result) \<Rightarrow> nat result" where
  \<comment> \<open>\<^verbatim>\<open>a.m(...)\<close> where \<^verbatim>\<open>a\<close> is itself a call: the method runs on the object that call returned.\<close>
  "then_call r m = (case r of (Inl e, w) \<Rightarrow> (Inl e, w) | (Inr obj, w) \<Rightarrow> m obj w)"

definition chained_example :: "nat \<Rightarrow> world \<Rightarrow> nat result" where
  "chained_example self w =
     then_call (then_call (status 201 self w) (set_header [(''X-Foo'', ''1'')]))
       (json (PDict [(''ok'', PBool True)]))"

definition Response_init :: "nat \<Rightarrow> world \<Rightarrow> world" where
  \<comment> \<open>\<^verbatim>\<open>Response()\<close>: the new instance wraps a newly constructed native response.\<close>
  "Response_init self w = w\<lparr>responses := (responses w)(self := FlaskResponse)\<rparr>"

definition example_world :: world where
  \<comment> \<open>Every address holds a newly constructed response; one file can be read.\<close>
  "example_world =
     \<lparr>responses = (\<lambda>_. FlaskResponse),
      types_map = [''.json'' \<mapsto> ''application/json'', ''.html'' \<mapsto> ''text/html''],
      read_text = (\<lambda>p. if p = ''index.html'' then Inr ''<p>hi</p>'' else Inl FileNotFoundError)\<rparr>"

definition headerless_world :: world where
  \<comment> \<open>As \<open>example_world\<close>, after the handler has removed every header through the native
      object, which the facade exposes as \<^verbatim>\<open>flask_response\<close>.\<close>
  "headerless_world =
     example_world\<lparr>responses := (\<lambda>_. FlaskResponse\<lparr>headers := []\<rparr>)\<rparr>"

section \<open>The process streams and listen\<close>

text \<open>
  \<^verbatim>\<open>sys.stdout\<close> and \<^verbatim>\<open>sys.stderr\<close> are process-wide variables holding stream objects.
  A stream is an identifier; \<open>is_open\<close> tells whether it can still be written to, and
  writing to a closed one raises \<^verbatim>\<open>ValueError\<close>. Leaving a \<^verbatim>\<open>with open(...)\<close> block
  closes the file it opened. The server loop is a parameter: any computation over the
  process state.
\<close>

record proc =
  sys_stdout :: nat
  sys_stderr :: nat
  is_open :: "nat \<Rightarrow> bool"
  next_stream :: nat
  written :: "(nat \<times> string) list"

definition open_devnull :: "proc \<Rightarrow> nat \<times> proc" where
  "open_devnull p =
     (next_stream p,
      p\<lparr>is_open := (is_open p)(next_stream p := True), next_stream := Suc (next_stream p)\<rparr>)"

definition close_stream :: "nat \<Rightarrow> proc \<Rightarrow> proc" where
  "close_stream f p = p\<lparr>is_open := (is_open p)(f := False)\<rparr>"

definition write_stream :: "nat \<Rightarrow> string \<Rightarrow> proc \<Rightarrow> (error + unit) \<times> proc" where
  "write_stream f text p =
     (if is_open p f then (Inr (), p\<lparr>written := written p @ [(f, text)]\<rparr>)
      else (Inl ValueError, p))"

definition listen ::
  "int \<Rightarrow> string \<Rightarrow> bool \<Rightarrow> (string \<Rightarrow> int \<Rightarrow> proc \<Rightarrow> (error + unit) \<times> proc) \<Rightarrow> proc
     \<Rightarrow> (error + unit) \<times> proc" where
  "listen port hostname' verbose run_simple p =
     (let stdout = sys_stdout p;
          stderr = sys_stderr p;
          p1 = (if \<not> verbose
                then (case open_devnull p of
                        (null, q) \<Rightarrow> close_stream null (q\<lparr>sys_stdout := null, sys_stderr := null\<rparr>))
                else p)
      in (case run_simple hostname' port p1 of
            (Inl e, p2) \<Rightarrow> (Inl e, p2)
          | (Inr _, p2) \<Rightarrow>
              (Inr (), if \<not> verbose then p2\<lparr>sys_stdout := stdout, sys_stderr := stderr\<rparr> else p2)))"

definition print_line :: "string \<Rightarrow> proc \<Rightarrow> (error + unit) \<times> proc" where
  \<comment> \<open>\<^verbatim>\<open>print(text)\<close>: a write to whatever \<^verbatim>\<open>sys.stdout\<close> currently is.\<close>
  "print_line text p = write_stream (sys_stdout p) text p"

definition quiet_streams :: "proc \<Rightarrow> proc" where
  "quiet_streams p =
     close_stream (next_stream p)
       ((snd (open_devnull p))\<lparr>sys_stdout := next_stream p, sys_stderr := next_stream p\<rparr>)"

section \<open>Facts about the helpers\<close>

lemma hget_hreplace_same: "hget k (hreplace k v hs) = Some v"
  by (induction hs) auto

lemma hget_filter_other:
  "lower k \<noteq> lower k' \<Longrightarrow> hget k (filter (\<lambda>kv. lower (fst kv) \<noteq> lower k') hs) = hget k hs"
  by (induction hs) auto

lemma hget_hreplace_other: "lower k \<noteq> lower k' \<Longrightarrow> hget k (hreplace k' v hs) = hget k hs"
  by (induction hs) (auto simp: hget_filter_other)

lemma has_newline_append: "has_newline (a @ b) = (has_newline a \<or> has_newline b)"
  by (auto simp: has_newline_def)

lemma has_newline_Cons:
  "has_newline (c # s) = (c = CHR 0x0D \<or> c = CHR 0x0A \<or> has_newline s)"
  by (auto simp: has_newline_def)

lemma has_newline_literals:
  "\<not> has_newline ''text/html''"
  "\<not> has_newline ''application/json''"
  "\<not> has_newline ''application/xml''"
  "\<not> has_newline ''attachment; filename=''"
  "\<not> has_newline ''1''"
  by (simp_all add: has_newline_def)

lemma lower_distinct:
  "lower ''Content-Type'' \<noteq> lower ''Content-Length''"
  "lower ''Content-Type'' \<noteq> lower ''Location''"
  "lower ''Location'' \<noteq> lower ''Content-Type''"
  "lower ''Location'' \<noteq> lower ''Content-Length''"
  "lower ''X-Foo'' \<noteq> lower ''Content-Type''"
  "lower ''X-Foo'' \<noteq> lower ''Content-Length''"
  by (simp_all add: lower_def lower_chr_def)

lemma resp_upd_same: "resp self (upd self f w) = f (resp self w)"
  by (simp add: resp_def upd_def)

lemma resp_upd_other: "other \<noteq> self \<Longrightarrow> resp other (upd self f w) = resp other w"
  by (simp add: resp_def upd_def)

lemma types_map_upd: "types_map (upd self f w) = types_map w"
  by (simp add: upd_def)

lemma read_text_upd: "read_text (upd self f w) = read_text w"
  by (simp add: upd_def)

lemma set_data_fields:
  "data (set_data text r) = text"
  "status_code (set_data text r) = status_code r"
  "hget ''Content-Length'' (headers (set_data text r)) = Some (str_nat (utf8_length text))"
  by (simp_all add: set_data_def hget_hreplace_same)

lemma set_data_other_header:
  "lower k \<noteq> lower ''Content-Length'' \<Longrightarrow> hget k (headers (set_data text r)) = hget k (headers r)"
  by (simp add: set_data_def hget_hreplace_other)

lemma assign_data_resp:
  "resp self (assign_data text self w) = set_data text (resp self w)"
  "other \<noteq> self \<Longrightarrow> resp other (assign_data text self w) = resp other w"
  "types_map (assign_data text self w) = types_map w"
  "read_text (assign_data text self w) = read_text w"
  by (simp_all add: assign_data_def resp_upd_same resp_upd_other types_map_upd read_text_upd)

lemma assign_header_result:
  "assign_header k v self w =
     (if has_newline v then (Inl ValueError, w)
      else (Inr (), upd self (\<lambda>r. r\<lparr>headers := hreplace k v (headers r)\<rparr>) w))"
  by (simp add: assign_header_def hset_def upd_def resp_def)

lemma split_str_nonempty: "split_str sep s \<noteq> []"
  by (induction s) (auto split: list.splits)

lemma split_str_no_sep: "sep \<notin> set s \<Longrightarrow> split_str sep s = [s]"
  by (induction s) auto

lemma split_str_append:
  "sep \<notin> set l \<Longrightarrow> split_str sep (l @ sep # rest) = l # split_str sep rest"
  by (induction l) auto

lemma split_str_join:
  "labels \<noteq> [] \<Longrightarrow> \<forall>l \<in> set labels. sep \<notin> set l \<Longrightarrow> split_str sep (join [sep] labels) = labels"
proof (induction labels)
  case Nil
  then show ?case by simp
next
  case (Cons x xs)
  show ?case
  proof (cases xs)
    assume "xs = []"
    with Cons.prems show ?thesis by (simp add: split_str_no_sep)
  next
    fix y ys
    assume xs: "xs = y # ys"
    with Cons.IH Cons.prems have "split_str sep (join [sep] xs) = xs" by simp
    with xs Cons.prems show ?thesis by (simp add: split_str_append)
  qed
qed

lemma content_type_result:
  "content_type ct self w =
     (if has_newline (if CHR ''/'' \<in> set ct then ct
                      else (case types_map w (''.'' @ ct) of None \<Rightarrow> ''text/html'' | Some m \<Rightarrow> m))
      then (Inl ValueError, w)
      else (Inr self,
            upd self (\<lambda>r. r\<lparr>headers := hreplace ''Content-Type''
                (if CHR ''/'' \<in> set ct then ct
                 else (case types_map w (''.'' @ ct) of None \<Rightarrow> ''text/html'' | Some m \<Rightarrow> m))
                (headers r)\<rparr>) w))"
  by (simp add: content_type_def assign_header_result)

lemma content_type_html:
  "content_type ''text/html'' self w =
     (Inr self, upd self (\<lambda>r. r\<lparr>headers := hreplace ''Content-Type'' ''text/html'' (headers r)\<rparr>) w)"
  by (simp add: content_type_result has_newline_literals)

lemma json_result:
  "json obj self w =
     (Inr self,
      assign_data (json_dumps obj) self
        (upd self (\<lambda>r. r\<lparr>headers := hreplace ''Content-Type'' ''application/json'' (headers r)\<rparr>) w))"
  by (simp add: json_def assign_header_result has_newline_literals)

lemma send_text_result:
  "send (PStr text) self w =
     (Inr self,
      if Response_get ''Content-Type'' self w = None
      then upd self (\<lambda>r. r\<lparr>headers := hreplace ''Content-Type'' ''text/html'' (headers r)\<rparr>)
             (assign_data text self w)
      else assign_data text self w)"
  by (auto simp: send_def content_type_html Response_get_def assign_data_resp
      set_data_other_header lower_distinct Let_def)

lemma send_text_keeps_content_type:
  "Response_get ''Content-Type'' self w = Some ct \<Longrightarrow>
     Response_get ''Content-Type'' self (snd (send (PStr msg) self w)) = Some ct"
  by (simp add: send_text_result Response_get_def assign_data_resp set_data_other_header
      lower_distinct)

lemma Response_init_content_type:
  "Response_get ''Content-Type'' self (Response_init self w) = Some ''text/html; charset=utf-8''"
  by (simp add: Response_get_def resp_def Response_init_def FlaskResponse_def)

lemma send_other_is_json: "\<not> is_str body \<Longrightarrow> send body self w = json body self w"
  by (cases body) (simp_all add: send_def is_str_def)

lemma send_returns_self: "fst (send body self w) = Inr self"
  by (cases body) (simp_all add: send_text_result, simp_all add: send_def json_result)

lemma send_status_known:
  "HTTPStatus code = Inr phrase \<Longrightarrow> phrase \<noteq> [] \<Longrightarrow>
     send_status code self w =
       (Inr self, snd (send (PStr phrase) self (upd self (\<lambda>r. r\<lparr>status_code := code\<rparr>) w)))"
  by (simp add: send_status_def status_def send_text_result)

lemma send_status_404:
  "fst (send_status 404 self w) = Inr self
   \<and> status_code (resp self (snd (send_status 404 self w))) = 404
   \<and> data (resp self (snd (send_status 404 self w))) = ''Not Found''"
proof -
  have "HTTPStatus 404 = Inr ''Not Found''"
    by (simp add: HTTPStatus_def http_phrases_def)
  then show ?thesis
    by (simp add: send_status_known send_text_result resp_upd_same assign_data_resp set_data_fields)
qed

lemma send_status_returns:
  "fst (send_status code self w) = (case HTTPStatus code of Inl e \<Rightarrow> Inl e | Inr _ \<Rightarrow> Inr self)"
  by (simp add: send_status_def status_def send_text_result split: sum.splits)

lemma accepts_bare_word:
  "tm media_type = None \<Longrightarrow> CHR ''/'' \<notin> set media_type \<Longrightarrow>
     accepts tm r media_type = (media_type \<in> set (accept_mimetypes r))"
  by (simp add: accepts_def)

lemma json_dumps_example:
  "json_dumps (PDict [(''a'', PInt 1)]) = ''{'' @ [CHR 0x22] @ ''a'' @ [CHR 0x22] @ '': 1}''"
  by (simp add: json_str_def json_escape_chr_def str_int_def digit_chr_def)

lemma set_fields_fst:
  "fst (set_fields flds self w) =
     (if list_ex (\<lambda>kv. has_newline (snd kv)) flds then Inl ValueError else Inr ())"
  by (induction flds self w rule: set_fields.induct) (simp_all add: assign_header_result)

lemma set_fields_other:
  "other \<noteq> self \<Longrightarrow> resp other (snd (set_fields flds self w)) = resp other w"
  by (induction flds self w rule: set_fields.induct)
    (simp_all add: assign_header_result resp_upd_other)

lemma set_fields_env:
  "types_map (snd (set_fields flds self w)) = types_map w"
  "read_text (snd (set_fields flds self w)) = read_text w"
  by (induction flds self w rule: set_fields.induct)
    (simp_all add: assign_header_result types_map_upd read_text_upd)

lemma set_header_fst:
  "fst (set_header flds self w) =
     (if list_ex (\<lambda>kv. has_newline (snd kv)) flds then Inl ValueError else Inr self)"
  using set_fields_fst [of flds self w]
  by (cases "set_fields flds self w") (auto simp: set_header_def split: sum.splits if_splits)

lemma set_header_snd: "snd (set_header flds self w) = snd (set_fields flds self w)"
  by (cases "set_fields flds self w") (auto simp: set_header_def split: sum.splits)

lemma redirect_result:
  "redirect path self w =
     (if has_newline path
      then (Inl ValueError,
            upd self (\<lambda>r. r\<lparr>headers := hreplace ''Content-Type'' ''text/html'' (headers r)\<rparr>)
              (assign_data (redirect_body path) self (upd self (\<lambda>r. r\<lparr>status_code := 302\<rparr>) w)))
      else (Inr self,
            upd self (\<lambda>r. r\<lparr>headers := hreplace ''Location'' path (headers r)\<rparr>)
              (upd self (\<lambda>r. r\<lparr>headers := hreplace ''Content-Type'' ''text/html'' (headers r)\<rparr>)
                (assign_data (redirect_body path) self
                  (upd self (\<lambda>r. r\<lparr>status_code := 302\<rparr>) w)))))"
  by (simp add: redirect_def content_type_html assign_header_result)

lemma send_file_result:
  "send_file path self w =
     (case read_text w path of
        Inl e \<Rightarrow> (Inl e, w)
      | Inr text \<Rightarrow>
          (if has_newline (case types_map w (path_suffix path) of None \<Rightarrow> ''text/html'' | Some m \<Rightarrow> m)
           then (Inl ValueError, assign_data text self w)
           else (Inr self,
                 upd self (\<lambda>r. r\<lparr>headers := hreplace ''Content-Type''
                     (case types_map w (path_suffix path) of None \<Rightarrow> ''text/html'' | Some m \<Rightarrow> m)
                     (headers r)\<rparr>)
                   (assign_data text self w))))"
  by (simp add: send_file_def assign_data_resp assign_header_result split: sum.splits)

lemma download_returns:
  "fst (download path filename self w) =
     (if has_newline (case filename of None \<Rightarrow> path_name path
                      | Some f \<Rightarrow> if f = [] then path_name path else f)
      then Inl ValueError
      else (case read_text w path of
              Inl e \<Rightarrow> Inl e
            | Inr _ \<Rightarrow>
                if has_newline (case types_map w (path_suffix path) of
                                  None \<Rightarrow> ''text/html'' | Some m \<Rightarrow> m)
                then Inl ValueError else Inr self))"
  by (simp add: download_def set_header_def assign_header_result has_newline_Cons
      send_file_result types_map_upd read_text_upd Let_def split: sum.splits)

lemma chained_example_result:
  "chained_example self w =
     (Inr self,
      assign_data (json_dumps (PDict [(''ok'', PBool True)])) self
       (upd self (\<lambda>r. r\<lparr>headers := hreplace ''Content-Type'' ''application/json'' (headers r)\<rparr>)
         (upd self (\<lambda>r. r\<lparr>headers := hreplace ''X-Foo'' ''1'' (headers r)\<rparr>)
           (upd self (\<lambda>r. r\<lparr>status_code := 201\<rparr>) w))))"
  by (simp add: chained_example_def then_call_def status_def set_header_def json_result
      assign_header_result has_newline_literals)

lemma listen_verbose:
  "listen port hostname' True run_simple p =
     (case run_simple hostname' port p of (Inl e, p2) \<Rightarrow> (Inl e, p2) | (Inr u, p2) \<Rightarrow> (Inr (), p2))"
  by (simp add: listen_def split: prod.splits sum.splits)

lemma listen_quiet:
  "listen port hostname' False run_simple p =
     (case run_simple hostname' port (quiet_streams p) of
        (Inl e, p2) \<Rightarrow> (Inl e, p2)
      | (Inr u, p2) \<Rightarrow> (Inr (), p2\<lparr>sys_stdout := sys_stdout p, sys_stderr := sys_stderr p\<rparr>))"
  by (simp add: listen_def open_devnull_def quiet_streams_def split: prod.splits sum.splits)

lemma quiet_streams_closed:
  "\<not> is_open (quiet_streams p) (sys_stdout (quiet_streams p))"
  "\<not> is_open (quiet_streams p) (sys_stderr (quiet_streams p))"
  by (simp_all add: quiet_streams_def open_devnull_def close_stream_def)

section \<open>Request: content negotiation, host and subdomains\<close>

text \<open>
  C1. \<^verbatim>\<open>accepts(media_type)\<close> is meant to turn a bare extension such as \<^verbatim>\<open>json\<close> into its
  MIME type before the membership test, so that \<^verbatim>\<open>accepts("json")\<close> holds exactly when
  \<^verbatim>\<open>application/json\<close> is in the Accept set. The method looks the bare word itself up in
  the extension table, whose keys carry a leading dot, finds nothing and tests the word
  unchanged: with \<^verbatim>\<open>application/json\<close> in the Accept set, \<^verbatim>\<open>accepts("json")\<close> is false
  while \<^verbatim>\<open>accepts("application/json")\<close> is true.
\<close>

theorem accepts_json_unresolved:
  "\<not> accepts [''.json'' \<mapsto> ''application/json'']
        \<lparr>scheme = ''http'', host_header = ''example.com'',
           accept_mimetypes = [''application/json'']\<rparr> ''json''
   \<and> accepts [''.json'' \<mapsto> ''application/json'']
        \<lparr>scheme = ''http'', host_header = ''example.com'',
           accept_mimetypes = [''application/json'']\<rparr> ''application/json''"
  by (simp add: accepts_def)

text \<open>
  C3. \<^verbatim>\<open>host\<close> and its alias \<^verbatim>\<open>hostname\<close> are documented to give the Host header without
  its port. They return the native property as it is, and for the header
  \<^verbatim>\<open>example.com:3000\<close> that value still ends in \<^verbatim>\<open>:3000\<close>.
\<close>

theorem host_keeps_port:
  "host \<lparr>scheme = ''http'', host_header = ''example.com:3000'', accept_mimetypes = []\<rparr>
     = ''example.com:3000''
   \<and> hostname \<lparr>scheme = ''http'', host_header = ''example.com:3000'', accept_mimetypes = []\<rparr>
     = ''example.com:3000''"
  by (simp add: hostname_def host_def native_host_def endswith_def)

text \<open>
  C4. \<^verbatim>\<open>subdomains\<close> is the hostname split on the dot, reversed, without the first two
  entries of the reversed list. For \<^verbatim>\<open>tobi.ferrets.example.com\<close> that is
  \<^verbatim>\<open>["ferrets", "tobi"]\<close>, for \<^verbatim>\<open>example.com\<close> it is the empty list, and for any
  hostname made of dot-free labels joined by dots it is the reversed label list without
  its first two entries. The function is total: no hostname makes it fail.
\<close>

theorem subdomains_spec:
  "subdomains r = drop 2 (rev (split_str (CHR ''.'') (hostname r)))
   \<and> (hostname r = ''tobi.ferrets.example.com'' \<longrightarrow> subdomains r = [''ferrets'', ''tobi''])
   \<and> (hostname r = ''example.com'' \<longrightarrow> subdomains r = [])
   \<and> (labels \<noteq> [] \<and> (\<forall>l \<in> set labels. CHR ''.'' \<notin> set l) \<and> hostname r = join ''.'' labels
        \<longrightarrow> subdomains r = drop 2 (rev labels))"
proof -
  have a: "subdomains r = drop 2 (rev (split_str (CHR ''.'') (hostname r)))"
    by (simp add: subdomains_def)
  have b: "hostname r = ''tobi.ferrets.example.com'' \<longrightarrow> subdomains r = [''ferrets'', ''tobi'']"
    by (simp add: subdomains_def)
  have c: "hostname r = ''example.com'' \<longrightarrow> subdomains r = []"
    by (simp add: subdomains_def)
  have d: "labels \<noteq> [] \<and> (\<forall>l \<in> set labels. CHR ''.'' \<notin> set l) \<and> hostname r = join ''.'' labels
        \<longrightarrow> subdomains r = drop 2 (rev labels)"
    using split_str_join[of labels "CHR ''.''"] by (auto simp: subdomains_def)
  from a b c d show ?thesis by blast
qed

theorem subdomains_spec_witness:
  "hostname \<lparr>scheme = ''http'', host_header = ''tobi.ferrets.example.com'', accept_mimetypes = []\<rparr>
     = ''tobi.ferrets.example.com''
   \<and> subdomains \<lparr>scheme = ''http'', host_header = ''tobi.ferrets.example.com'', accept_mimetypes = []\<rparr>
     = [''ferrets'', ''tobi'']
   \<and> hostname \<lparr>scheme = ''https'', host_header = ''example.com:443'', accept_mimetypes = []\<rparr>
     = ''example.com''
   \<and> subdomains \<lparr>scheme = ''https'', host_header = ''example.com:443'', accept_mimetypes = []\<rparr> = []
   \<and> hostname \<lparr>scheme = ''http'', host_header = ''a.b.example.com'', accept_mimetypes = []\<rparr>
     = join ''.'' [''a'', ''b'', ''example'', ''com'']
   \<and> subdomains \<lparr>scheme = ''http'', host_header = ''a.b.example.com'', accept_mimetypes = []\<rparr>
     = [''b'', ''a'']"
  using
    subdomains_spec [of "\<lparr>scheme = ''http'', host_header = ''tobi.ferrets.example.com'', accept_mimetypes = []\<rparr>" "[''x'']"]
    subdomains_spec [of "\<lparr>scheme = ''https'', host_header = ''example.com:443'', accept_mimetypes = []\<rparr>" "[''x'']"]
    subdomains_spec [of "\<lparr>scheme = ''http'', host_header = ''a.b.example.com'', accept_mimetypes = []\<rparr>" "[''a'', ''b'', ''example'', ''com'']"]
  by (simp add: hostname_def host_def native_host_def endswith_def)

section \<open>Response: status, body and headers\<close>

text \<open>
  C2. \<^verbatim>\<open>send_status(code)\<close> is documented to fall back to the decimal form of a code
  that has no standard phrase. For 599 the lookup of the phrase raises \<^verbatim>\<open>ValueError\<close>
  after the status code has been assigned: the call fails, and the body is never set.
\<close>

theorem send_status_599_raises:
  "send_status 599 self w = (Inl ValueError, upd self (\<lambda>r. r\<lparr>status_code := 599\<rparr>) w)"
  by (simp add: send_status_def status_def HTTPStatus_def http_phrases_def)

text \<open>
  C5. \<^verbatim>\<open>send(value)\<close>: a value that is not text is handed to \<^verbatim>\<open>json\<close>, so the call is the
  same as \<^verbatim>\<open>json(value)\<close>: Content-Type \<^verbatim>\<open>application/json\<close> and the JSON text as body
  (for \<^verbatim>\<open>{"a": 1}\<close> the body \<^verbatim>\<open>{"a": 1}\<close>). A text value becomes the body as it is, and
  its length goes into Content-Length; when the response has no Content-Type header it
  gets \<^verbatim>\<open>text/html\<close>, and when it has one, that one stays, as does every header other
  than Content-Length. A newly built response already carries
  \<^verbatim>\<open>text/html; charset=utf-8\<close>, so \<^verbatim>\<open>send("hello")\<close> on it keeps that value: the header
  is not the bare \<^verbatim>\<open>text/html\<close>.
\<close>

theorem send_spec:
  "(\<not> is_str body \<longrightarrow>
      send body self w = json body self w
      \<and> fst (send body self w) = Inr self
      \<and> Response_get ''Content-Type'' self (snd (send body self w)) = Some ''application/json''
      \<and> data (resp self (snd (send body self w))) = json_dumps body)
   \<and> (Response_get ''Content-Type'' self w = None \<longrightarrow>
      fst (send (PStr msg) self w) = Inr self
      \<and> Response_get ''Content-Type'' self (snd (send (PStr msg) self w)) = Some ''text/html''
      \<and> data (resp self (snd (send (PStr msg) self w))) = msg)
   \<and> (Response_get ''Content-Type'' self w = Some ct \<longrightarrow>
      fst (send (PStr msg) self w) = Inr self
      \<and> Response_get ''Content-Type'' self (snd (send (PStr msg) self w)) = Some ct
      \<and> data (resp self (snd (send (PStr msg) self w))) = msg)
   \<and> (lower k \<noteq> lower ''Content-Length'' \<and> lower k \<noteq> lower ''Content-Type'' \<longrightarrow>
      Response_get k self (snd (send (PStr msg) self w)) = Response_get k self w)
   \<and> Response_get ''Content-Length'' self (snd (send (PStr msg) self w))
        = Some (str_nat (utf8_length msg))
   \<and> status_code (resp self (snd (send (PStr msg) self w))) = status_code (resp self w)
   \<and> Response_get ''Content-Type'' self (snd (send (PStr msg) self (Response_init self w)))
        = Some ''text/html; charset=utf-8''
   \<and> data (resp self (snd (send (PStr msg) self (Response_init self w)))) = msg
   \<and> json_dumps (PDict [(''a'', PInt 1)]) = ''{'' @ [CHR 0x22] @ ''a'' @ [CHR 0x22] @ '': 1}''"
proof -
  have a: "\<not> is_str body \<longrightarrow>
      send body self w = json body self w
      \<and> fst (send body self w) = Inr self
      \<and> Response_get ''Content-Type'' self (snd (send body self w)) = Some ''application/json''
      \<and> data (resp self (snd (send body self w))) = json_dumps body"
    by (simp add: send_other_is_json json_result Response_get_def assign_data_resp
        resp_upd_same set_data_fields set_data_other_header lower_distinct hget_hreplace_same)
  have b: "Response_get ''Content-Type'' self w = None \<longrightarrow>
      fst (send (PStr msg) self w) = Inr self
      \<and> Response_get ''Content-Type'' self (snd (send (PStr msg) self w)) = Some ''text/html''
      \<and> data (resp self (snd (send (PStr msg) self w))) = msg"
    by (simp add: send_text_result Response_get_def resp_upd_same assign_data_resp
        set_data_fields hget_hreplace_same)
  have c: "Response_get ''Content-Type'' self w = Some ct \<longrightarrow>
      fst (send (PStr msg) self w) = Inr self
      \<and> Response_get ''Content-Type'' self (snd (send (PStr msg) self w)) = Some ct
      \<and> data (resp self (snd (send (PStr msg) self w))) = msg"
    by (simp add: send_text_result Response_get_def assign_data_resp set_data_fields
        set_data_other_header lower_distinct)
  have d: "lower k \<noteq> lower ''Content-Length'' \<and> lower k \<noteq> lower ''Content-Type'' \<longrightarrow>
      Response_get k self (snd (send (PStr msg) self w)) = Response_get k self w"
    by (simp add: send_text_result Response_get_def resp_upd_same assign_data_resp
        set_data_other_header hget_hreplace_other)
  have e: "Response_get ''Content-Length'' self (snd (send (PStr msg) self w))
        = Some (str_nat (utf8_length msg))"
    by (simp add: send_text_result Response_get_def resp_upd_same assign_data_resp
        set_data_fields hget_hreplace_other lower_distinct [symmetric])
  have f: "status_code (resp self (snd (send (PStr msg) self w))) = status_code (resp self w)"
    by (simp add: send_text_result resp_upd_same assign_data_resp set_data_fields)
  note init = Response_init_content_type [of self w]
  have g: "Response_get ''Content-Type'' self (snd (send (PStr msg) self (Response_init self w)))
        = Some ''text/html; charset=utf-8''
      \<and> data (resp self (snd (send (PStr msg) self (Response_init self w)))) = msg"
    using init
    by (simp add: send_text_result Response_get_def assign_data_resp set_data_fields
        set_data_other_header lower_distinct)
  from a b c d e f g json_dumps_example show ?thesis by blast
qed

theorem send_spec_witness:
  "\<not> is_str (PDict [(''a'', PInt 1)])
   \<and> data (resp 0 (snd (send (PDict [(''a'', PInt 1)]) 0 example_world)))
       = json_dumps (PDict [(''a'', PInt 1)])
   \<and> Response_get ''Content-Type'' 0 (snd (send (PDict [(''a'', PInt 1)]) 0 example_world))
       = Some ''application/json''
   \<and> Response_get ''Content-Type'' 0 headerless_world = None
   \<and> Response_get ''Content-Type'' 0 (snd (send (PStr ''hello'') 0 headerless_world))
       = Some ''text/html''
   \<and> data (resp 0 (snd (send (PStr ''hello'') 0 headerless_world))) = ''hello''
   \<and> Response_get ''Content-Type'' 0 example_world = Some ''text/html; charset=utf-8''
   \<and> Response_get ''Content-Type'' 0 (snd (send (PStr ''hello'') 0 example_world))
       = Some ''text/html; charset=utf-8''
   \<and> data (resp 0 (snd (send (PStr ''hello'') 0 example_world))) = ''hello''
   \<and> lower ''X-Foo'' \<noteq> lower ''Content-Length'' \<and> lower ''X-Foo'' \<noteq> lower ''Content-Type''
   \<and> Response_get ''X-Foo'' 0 (snd (send (PStr ''hello'') 0 example_world))
       = Response_get ''X-Foo'' 0 example_world"
proof -
  have h1: "\<not> is_str (PDict [(''a'', PInt 1)])"
    by (simp add: is_str_def)
  have h2: "Response_get ''Content-Type'' 0 headerless_world = None"
    by (simp add: Response_get_def resp_def headerless_world_def example_world_def)
  have h3: "Response_get ''Content-Type'' 0 example_world = Some ''text/html; charset=utf-8''"
    by (simp add: Response_get_def resp_def example_world_def FlaskResponse_def)
  have h4: "lower ''X-Foo'' \<noteq> lower ''Content-Length'' \<and> lower ''X-Foo'' \<noteq> lower ''Content-Type''"
    by (simp add: lower_distinct)
  from h1 h2 h3 h4
    send_spec [where body = "PDict [(''a'', PInt 1)]" and self = 0 and w = example_world
                 and ct = "''text/html; charset=utf-8''" and msg = "''hello''"
                 and k = "''X-Foo''"]
    send_spec [where body = "PDict [(''a'', PInt 1)]" and self = 0 and w = headerless_world
                 and ct = "''text/html; charset=utf-8''" and msg = "''hello''"
                 and k = "''X-Foo''"]
  show ?thesis by blast
qed

theorem send_fresh_counterexample:
  "Response_get ''Content-Type'' 0 (snd (send (PStr ''hello'') 0 (Response_init 0 example_world)))
     = Some ''text/html; charset=utf-8''
   \<and> Response_get ''Content-Type'' 0 (snd (send (PStr ''hello'') 0 (Response_init 0 example_world)))
     \<noteq> Some ''text/html''"
  by (simp add: send_text_keeps_content_type Response_init_content_type)

text \<open>
  C6. \<^verbatim>\<open>content_type(value)\<close>: a value containing a slash is the header value as it is;
  any other value is looked up in the extension table under the key made of a dot and
  the value, and \<^verbatim>\<open>text/html\<close> is used when the table has no such key. When the header
  value so obtained has no carriage return or line feed, the call returns the instance
  and Content-Type is exactly that value; when it has one, the call raises
  \<^verbatim>\<open>ValueError\<close> and the world is unchanged. With \<^verbatim>\<open>.json\<close> mapped to
  \<^verbatim>\<open>application/json\<close>, \<^verbatim>\<open>content_type("json")\<close> gives that type, and
  \<^verbatim>\<open>content_type("application/xml")\<close> is stored verbatim. Status and body are never touched.
\<close>

theorem content_type_spec:
  "(CHR ''/'' \<in> set ct \<and> \<not> has_newline ct \<longrightarrow>
        fst (content_type ct self w) = Inr self
        \<and> Response_get ''Content-Type'' self (snd (content_type ct self w)) = Some ct)
   \<and> (CHR ''/'' \<notin> set ct
        \<and> \<not> has_newline (case types_map w (''.'' @ ct) of None \<Rightarrow> ''text/html'' | Some m \<Rightarrow> m) \<longrightarrow>
        fst (content_type ct self w) = Inr self
        \<and> Response_get ''Content-Type'' self (snd (content_type ct self w))
          = Some (case types_map w (''.'' @ ct) of None \<Rightarrow> ''text/html'' | Some m \<Rightarrow> m))
   \<and> (has_newline (if CHR ''/'' \<in> set ct then ct
                    else (case types_map w (''.'' @ ct) of None \<Rightarrow> ''text/html'' | Some m \<Rightarrow> m)) \<longrightarrow>
        content_type ct self w = (Inl ValueError, w))
   \<and> (types_map w ''.json'' = Some ''application/json'' \<longrightarrow>
        fst (content_type ''json'' self w) = Inr self
        \<and> Response_get ''Content-Type'' self (snd (content_type ''json'' self w))
          = Some ''application/json'')
   \<and> fst (content_type ''application/xml'' self w) = Inr self
   \<and> Response_get ''Content-Type'' self (snd (content_type ''application/xml'' self w))
        = Some ''application/xml''
   \<and> status_code (resp self (snd (content_type ct self w))) = status_code (resp self w)
   \<and> data (resp self (snd (content_type ct self w))) = data (resp self w)"
  by (simp add: content_type_result Response_get_def resp_upd_same hget_hreplace_same
      has_newline_literals)

theorem content_type_spec_witness:
  "CHR ''/'' \<in> set ''image/png'' \<and> \<not> has_newline ''image/png''
   \<and> Response_get ''Content-Type'' 0 (snd (content_type ''image/png'' 0 example_world))
        = Some ''image/png''
   \<and> CHR ''/'' \<notin> set ''json''
   \<and> types_map example_world ''.json'' = Some ''application/json''
   \<and> Response_get ''Content-Type'' 0 (snd (content_type ''json'' 0 example_world))
        = Some ''application/json''
   \<and> CHR ''/'' \<notin> set ''zzz''
   \<and> types_map example_world ''.zzz'' = None
   \<and> Response_get ''Content-Type'' 0 (snd (content_type ''zzz'' 0 example_world))
        = Some ''text/html''
   \<and> has_newline (''a/b'' @ [CHR 0x0A])
   \<and> content_type (''a/b'' @ [CHR 0x0A]) 0 example_world = (Inl ValueError, example_world)"
proof -
  have h1: "CHR ''/'' \<in> set ''image/png'' \<and> \<not> has_newline ''image/png''"
    by (simp add: has_newline_def)
  have h2: "CHR ''/'' \<notin> set ''json''" by simp
  have h3: "types_map example_world ''.json'' = Some ''application/json''"
    by (simp add: example_world_def)
  have h4: "CHR ''/'' \<notin> set ''zzz''" by simp
  have h5: "types_map example_world ''.zzz'' = None"
    by (simp add: example_world_def)
  have h6: "has_newline (''a/b'' @ [CHR 0x0A])" "CHR ''/'' \<in> set (''a/b'' @ [CHR 0x0A])"
    by (simp_all add: has_newline_def)
  from h1 h2 h3 h4 h5 h6
    content_type_spec [of "''image/png''" 0 example_world]
    content_type_spec [of "''json''" 0 example_world]
    content_type_spec [of "''zzz''" 0 example_world]
    content_type_spec [of "''a/b'' @ [CHR 0x0A]" 0 example_world]
  show ?thesis by (simp add: has_newline_literals)
qed

theorem content_type_newline_counterexample:
  "CHR ''/'' \<in> set (''text/html'' @ [CHR 0x0A])
   \<and> fst (content_type (''text/html'' @ [CHR 0x0A]) 0 example_world) = Inl ValueError
   \<and> Response_get ''Content-Type'' 0 (snd (content_type (''text/html'' @ [CHR 0x0A]) 0 example_world))
       \<noteq> Some (''text/html'' @ [CHR 0x0A])"
  by (simp add: content_type_result has_newline_def Response_get_def resp_def
      example_world_def FlaskResponse_def)

text \<open>
  C7. Every mutating method, whenever it returns, returns the instance it was called on;
  it never returns another object. \<^verbatim>\<open>status\<close>, \<^verbatim>\<open>json\<close> and \<^verbatim>\<open>send\<close> always return;
  \<^verbatim>\<open>set_header\<close>, \<^verbatim>\<open>content_type\<close> and \<^verbatim>\<open>redirect\<close> return unless a header value they
  assign contains a carriage return or line feed; \<^verbatim>\<open>send_file\<close> and \<^verbatim>\<open>download\<close> also
  need the file to be readable, and \<^verbatim>\<open>send_status\<close> needs the code to have a phrase; in
  the other cases they raise. The chain
  \<^verbatim>\<open>status(201).set_header({"X-Foo": "1"}).json({"ok": True})\<close>, each call made on what the
  previous one returned, leaves the instance with status 201, header X-Foo equal to 1,
  Content-Type \<^verbatim>\<open>application/json\<close> and body \<^verbatim>\<open>{"ok": true}\<close>, and leaves every other
  instance as it was.
\<close>

theorem chaining_spec:
  "fst (status code self w) = Inr self
   \<and> fst (set_header flds self w)
        = (if list_ex (\<lambda>kv. has_newline (snd kv)) flds then Inl ValueError else Inr self)
   \<and> fst (content_type ct self w)
        = (if has_newline (if CHR ''/'' \<in> set ct then ct
                           else (case types_map w (''.'' @ ct) of
                                   None \<Rightarrow> ''text/html'' | Some m \<Rightarrow> m))
           then Inl ValueError else Inr self)
   \<and> fst (json obj self w) = Inr self
   \<and> fst (send body self w) = Inr self
   \<and> fst (redirect path self w) = (if has_newline path then Inl ValueError else Inr self)
   \<and> fst (send_file path self w)
        = (case read_text w path of
             Inl e \<Rightarrow> Inl e
           | Inr _ \<Rightarrow>
               if has_newline (case types_map w (path_suffix path) of
                                 None \<Rightarrow> ''text/html'' | Some m \<Rightarrow> m)
               then Inl ValueError else Inr self)
   \<and> fst (download path filename self w)
        = (if has_newline (case filename of None \<Rightarrow> path_name path
                           | Some f \<Rightarrow> if f = [] then path_name path else f)
           then Inl ValueError
           else (case read_text w path of
                   Inl e \<Rightarrow> Inl e
                 | Inr _ \<Rightarrow>
                     if has_newline (case types_map w (path_suffix path) of
                                       None \<Rightarrow> ''text/html'' | Some m \<Rightarrow> m)
                     then Inl ValueError else Inr self))
   \<and> fst (send_status code self w)
        = (case HTTPStatus code of Inl e \<Rightarrow> Inl e | Inr _ \<Rightarrow> Inr self)
   \<and> fst (chained_example self w) = Inr self
   \<and> status_code (resp self (snd (chained_example self w))) = 201
   \<and> Response_get ''X-Foo'' self (snd (chained_example self w)) = Some ''1''
   \<and> Response_get ''Content-Type'' self (snd (chained_example self w)) = Some ''application/json''
   \<and> data (resp self (snd (chained_example self w)))
        = ''{'' @ [CHR 0x22] @ ''ok'' @ [CHR 0x22] @ '': true}''
   \<and> (other \<noteq> self \<longrightarrow> resp other (snd (chained_example self w)) = resp other w)"
proof -
  have a: "fst (status code self w) = Inr self" by (simp add: status_def)
  have c: "fst (content_type ct self w)
        = (if has_newline (if CHR ''/'' \<in> set ct then ct
                           else (case types_map w (''.'' @ ct) of
                                   None \<Rightarrow> ''text/html'' | Some m \<Rightarrow> m))
           then Inl ValueError else Inr self)"
    by (simp add: content_type_result)
  have d: "fst (json obj self w) = Inr self" by (simp add: json_result)
  have e: "fst (redirect path self w) = (if has_newline path then Inl ValueError else Inr self)"
    by (simp add: redirect_result)
  have f: "fst (send_file path self w)
        = (case read_text w path of
             Inl e \<Rightarrow> Inl e
           | Inr _ \<Rightarrow>
               if has_newline (case types_map w (path_suffix path) of
                                 None \<Rightarrow> ''text/html'' | Some m \<Rightarrow> m)
               then Inl ValueError else Inr self)"
    by (simp add: send_file_result split: sum.splits)
  have g: "fst (chained_example self w) = Inr self
     \<and> status_code (resp self (snd (chained_example self w))) = 201
     \<and> Response_get ''X-Foo'' self (snd (chained_example self w)) = Some ''1''
     \<and> Response_get ''Content-Type'' self (snd (chained_example self w)) = Some ''application/json''"
    by (simp add: chained_example_result Response_get_def resp_upd_same assign_data_resp
        set_data_fields set_data_other_header hget_hreplace_same hget_hreplace_other
        lower_distinct)
  have h: "data (resp self (snd (chained_example self w)))
        = ''{'' @ [CHR 0x22] @ ''ok'' @ [CHR 0x22] @ '': true}''"
    by (simp add: chained_example_result assign_data_resp set_data_fields json_str_def
        json_escape_chr_def)
  have i: "other \<noteq> self \<longrightarrow> resp other (snd (chained_example self w)) = resp other w"
    by (simp add: chained_example_result resp_upd_other assign_data_resp)
  from a c d e f g h i send_returns_self [of body self w] download_returns [of path filename self w]
    send_status_returns [of code self w] set_header_fst [of flds self w]
  show ?thesis by simp
qed

theorem chaining_spec_witness:
  "(1::nat) \<noteq> 0
   \<and> resp 1 (snd (chained_example 0 example_world)) = resp 1 example_world
   \<and> fst (chained_example 0 example_world) = Inr 0
   \<and> status_code (resp 0 (snd (chained_example 0 example_world))) = 201
   \<and> Response_get ''X-Foo'' 0 (snd (chained_example 0 example_world)) = Some ''1''
   \<and> fst (set_header [(''X-Foo'', ''1'')] 0 example_world) = Inr 0
   \<and> fst (redirect ''/x'' 0 example_world) = Inr 0
   \<and> fst (send_file ''index.html'' 0 example_world) = Inr 0
   \<and> fst (download ''index.html'' None 0 example_world) = Inr 0
   \<and> fst (send_status 404 0 example_world) = Inr 0"
proof -
  have h1: "(1::nat) \<noteq> 0" by simp
  have h2: "read_text example_world ''index.html'' = Inr ''<p>hi</p>''"
    by (simp add: example_world_def)
  have h3: "HTTPStatus 404 = Inr ''Not Found''"
    by (simp add: HTTPStatus_def http_phrases_def)
  have h4: "\<not> has_newline ''/x''" "\<not> has_newline ''1''" "\<not> has_newline ''text/html''"
    "\<not> has_newline ''index.html''"
    by (simp_all add: has_newline_def)
  have h5: "path_name ''index.html'' = ''index.html''" "path_suffix ''index.html'' = ''.html''"
    by (simp_all add: path_suffix_def path_name_def path_parts_def)
  have h6: "types_map example_world ''.html'' = Some ''text/html''"
    by (simp add: example_world_def)
  from h1 h2 h3 h4 h5 h6
    chaining_spec [where code = 404 and self = 0 and w = example_world
                     and flds = "[(''X-Foo'', ''1'')]" and path = "''index.html''"
                     and filename = None and other = 1]
    chaining_spec [where code = 404 and self = 0 and w = example_world
                     and path = "''/x''" and other = 1]
  show ?thesis by simp
qed

text \<open>
  C8. \<^verbatim>\<open>redirect(path)\<close>, for a path without carriage return or line feed: the status
  code is 302, the body is the redirect notice written out below, with \<^verbatim>\<open>path\<close> inserted
  unescaped as the link target and as the link text (so the body contains \<^verbatim>\<open>path\<close>),
  Content-Type is \<^verbatim>\<open>text/html\<close> and Location is \<^verbatim>\<open>path\<close>. A path with a carriage
  return or line feed is refused when Location is assigned: the call raises
  \<^verbatim>\<open>ValueError\<close> and Location stays as it was.
\<close>

theorem redirect_spec:
  "(\<not> has_newline path \<longrightarrow>
      fst (redirect path self w) = Inr self
      \<and> status_code (resp self (snd (redirect path self w))) = 302
      \<and> data (resp self (snd (redirect path self w)))
          = [CHR 0x0A] @ ''<!DOCTYPE HTML PUBLIC '' @ [CHR 0x22]
              @ ''-//W3C//DTD HTML 3.2 Final//EN'' @ [CHR 0x22] @ ''>'' @ [CHR 0x0A]
            @ ''<title>Redirecting...</title>'' @ [CHR 0x0A]
            @ ''<h1>Redirecting...</h1>'' @ [CHR 0x0A]
            @ ''<p>You should be redirected automatically to target URL: <a href=''
              @ [CHR 0x22] @ path @ [CHR 0x22] @ ''>'' @ path
              @ ''</a>.  If not click the link.'' @ [CHR 0x0A]
      \<and> (\<exists>before after. data (resp self (snd (redirect path self w))) = before @ path @ after)
      \<and> Response_get ''Content-Type'' self (snd (redirect path self w)) = Some ''text/html''
      \<and> Response_get ''Location'' self (snd (redirect path self w)) = Some path)
   \<and> (has_newline path \<longrightarrow>
      fst (redirect path self w) = Inl ValueError
      \<and> Response_get ''Location'' self (snd (redirect path self w))
          = Response_get ''Location'' self w)"
proof -
  have body: "redirect_body path =
          ([CHR 0x0A] @ ''<!DOCTYPE HTML PUBLIC '' @ [CHR 0x22] @ ''-//W3C//DTD HTML 3.2 Final//EN''
             @ [CHR 0x22] @ ''>'' @ [CHR 0x0A]
           @ ''<title>Redirecting...</title>'' @ [CHR 0x0A]
           @ ''<h1>Redirecting...</h1>'' @ [CHR 0x0A]
           @ ''<p>You should be redirected automatically to target URL: <a href='' @ [CHR 0x22])
          @ path
          @ ([CHR 0x22] @ ''>'' @ path @ ''</a>.  If not click the link.'' @ [CHR 0x0A])"
    by (simp add: redirect_body_def)
  then have ex: "\<exists>before after. redirect_body path = before @ path @ after"
    by blast
  have ok: "\<not> has_newline path \<longrightarrow>
      fst (redirect path self w) = Inr self
      \<and> status_code (resp self (snd (redirect path self w))) = 302
      \<and> data (resp self (snd (redirect path self w))) = redirect_body path
      \<and> Response_get ''Content-Type'' self (snd (redirect path self w)) = Some ''text/html''
      \<and> Response_get ''Location'' self (snd (redirect path self w)) = Some path"
    by (simp add: redirect_result Response_get_def resp_upd_same assign_data_resp
        set_data_fields hget_hreplace_same hget_hreplace_other lower_distinct)
  have bad: "has_newline path \<longrightarrow>
      fst (redirect path self w) = Inl ValueError
      \<and> Response_get ''Location'' self (snd (redirect path self w))
          = Response_get ''Location'' self w"
    by (simp add: redirect_result Response_get_def resp_upd_same assign_data_resp
        set_data_other_header hget_hreplace_other lower_distinct)
  from ok bad ex show ?thesis
    by (simp add: redirect_body_def)
qed

theorem redirect_spec_witness:
  "\<not> has_newline ''/x''
   \<and> fst (redirect ''/x'' 0 example_world) = Inr 0
   \<and> status_code (resp 0 (snd (redirect ''/x'' 0 example_world))) = 302
   \<and> Response_get ''Location'' 0 (snd (redirect ''/x'' 0 example_world)) = Some ''/x''
   \<and> Response_get ''Content-Type'' 0 (snd (redirect ''/x'' 0 example_world)) = Some ''text/html''
   \<and> (\<exists>before after. data (resp 0 (snd (redirect ''/x'' 0 example_world))) = before @ ''/x'' @ after)
   \<and> has_newline (''/x'' @ [CHR 0x0D, CHR 0x0A] @ ''Set-Cookie: a=b'')
   \<and> fst (redirect (''/x'' @ [CHR 0x0D, CHR 0x0A] @ ''Set-Cookie: a=b'') 0 example_world)
       = Inl ValueError"
proof -
  have h1: "\<not> has_newline ''/x''" by (simp add: has_newline_def)
  have h2: "has_newline (''/x'' @ [CHR 0x0D, CHR 0x0A] @ ''Set-Cookie: a=b'')"
    by (simp add: has_newline_def)
  from h1 h2
    redirect_spec [of "''/x''" 0 example_world]
    redirect_spec [of "''/x'' @ [CHR 0x0D, CHR 0x0A] @ ''Set-Cookie: a=b''" 0 example_world]
  show ?thesis by blast
qed

theorem redirect_newline_counterexample:
  "fst (redirect (''/x'' @ [CHR 0x0A]) 0 example_world) = Inl ValueError
   \<and> Response_get ''Location'' 0 (snd (redirect (''/x'' @ [CHR 0x0A]) 0 example_world)) = None
   \<and> Response_get ''Location'' 0 (snd (redirect (''/x'' @ [CHR 0x0A]) 0 example_world))
       \<noteq> Some (''/x'' @ [CHR 0x0A])"
proof -
  have nl: "has_newline (''/x'' @ [CHR 0x0A])" by (simp add: has_newline_def)
  have none: "Response_get ''Location'' 0 example_world = None"
    by (simp add: Response_get_def resp_def example_world_def FlaskResponse_def lower_distinct)
  have "Response_get ''Location'' 0 (snd (redirect (''/x'' @ [CHR 0x0A]) 0 example_world))
          = Response_get ''Location'' 0 example_world"
    using nl
    by (simp only: redirect_result if_True snd_conv Response_get_def resp_upd_same
        assign_data_resp)
      (simp add: set_data_other_header hget_hreplace_other lower_distinct)
  with nl none show ?thesis
    by (simp add: redirect_result)
qed

text \<open>
  C10. When the file cannot be read, \<^verbatim>\<open>send_file(path)\<close> raises the error of the read and
  leaves the world as it found it: status code, headers and body of the response are
  those from before the call.
\<close>

theorem send_file_failure:
  "read_text w path = Inl e \<Longrightarrow>
     send_file path self w = (Inl e, w)
     \<and> status_code (resp self (snd (send_file path self w))) = status_code (resp self w)
     \<and> headers (resp self (snd (send_file path self w))) = headers (resp self w)
     \<and> data (resp self (snd (send_file path self w))) = data (resp self w)"
  by (simp add: send_file_def)

theorem send_file_failure_witness:
  "read_text example_world ''missing.txt'' = Inl FileNotFoundError
   \<and> send_file ''missing.txt'' 0 example_world = (Inl FileNotFoundError, example_world)"
proof -
  have h: "read_text example_world ''missing.txt'' = Inl FileNotFoundError"
    by (simp add: example_world_def)
  from h send_file_failure [OF h, of 0] show ?thesis by simp
qed

section \<open>listen and the process streams\<close>

text \<open>
  C9. With \<^verbatim>\<open>verbose\<close> false, \<^verbatim>\<open>listen\<close> is meant to silence the process for as long as it
  serves. It binds \<^verbatim>\<open>sys.stdout\<close> and \<^verbatim>\<open>sys.stderr\<close> to the null file inside a
  \<^verbatim>\<open>with\<close> block and starts the server after that block, when the file is already
  closed: a server that prints a line while serving gets \<^verbatim>\<open>ValueError\<close>, whatever the
  process state, port and host name are.
\<close>

theorem listen_quiet_write_fails:
  "fst (listen port hostname' False (\<lambda>h n. print_line text) p) = Inl ValueError"
  by (simp add: listen_def open_devnull_def close_stream_def print_line_def write_stream_def)

end
